theory Spec2Isabelle
  imports Main "HOL-Library.Word" "HOL-Library.Sublist"
begin

section \<open>JavaScript strings\<close>

text \<open>
  A JavaScript string is a sequence of UTF-16 code units. ASCII literals of the source are
  written \<open>js ''...''\<close>; the Chinese messages of the source are given by their code units.
\<close>

type_synonym code_unit = "16 word"
type_synonym js_string = "code_unit list"

definition js :: "string \<Rightarrow> js_string" where
  "js s = map of_char s"

text \<open>
  The characters removed by \<^verbatim>\<open>String.prototype.trim\<close> and matched by the regular
  expression class \<^verbatim>\<open>\s\<close>: ECMAScript WhiteSpace (TAB, VT, FF, SP, NBSP, ZWNBSP and the
  category Zs) together with the LineTerminators (LF, CR, LS, PS).
\<close>

definition isWhiteSpace :: "code_unit \<Rightarrow> bool" where
  "isWhiteSpace c \<longleftrightarrow>
     c \<in> {0x0009, 0x000A, 0x000B, 0x000C, 0x000D, 0x0020, 0x00A0, 0x1680,
          0x2000, 0x2001, 0x2002, 0x2003, 0x2004, 0x2005, 0x2006, 0x2007,
          0x2008, 0x2009, 0x200A, 0x2028, 0x2029, 0x202F, 0x205F, 0x3000, 0xFEFF}"

text \<open>\<^verbatim>\<open>s.trim()\<close>\<close>

definition trim :: "js_string \<Rightarrow> js_string" where
  "trim s = rev (dropWhile isWhiteSpace (rev (dropWhile isWhiteSpace s)))"

text \<open>
  \<^verbatim>\<open>s.split(sep)\<close> for a one-character separator, as a scanner: the piece read so
  far is closed at every occurrence of the separator and at the end of the string, so the
  empty string gives one empty piece.
\<close>

fun splitOnAcc :: "code_unit \<Rightarrow> js_string \<Rightarrow> js_string \<Rightarrow> js_string list" where
  "splitOnAcc sep piece [] = [piece]"
| "splitOnAcc sep piece (c # cs) =
     (if c = sep then piece # splitOnAcc sep [] cs else splitOnAcc sep (piece @ [c]) cs)"

definition splitOn :: "code_unit \<Rightarrow> js_string \<Rightarrow> js_string list" where
  "splitOn sep s = splitOnAcc sep [] s"

text \<open>
  \<^verbatim>\<open>s.split(/\s+/)\<close>: every maximal run of white space is one separator. A run at the
  start or at the end of the string leaves an empty piece there, and the empty string gives
  one empty piece (the pattern does not match the empty string).
\<close>

function splitWsAcc :: "js_string \<Rightarrow> js_string \<Rightarrow> js_string list" where
  "splitWsAcc piece [] = [piece]"
| "splitWsAcc piece (c # cs) =
     (if isWhiteSpace c then piece # splitWsAcc [] (dropWhile isWhiteSpace cs)
      else splitWsAcc (piece @ [c]) cs)"
  by pat_completeness auto
termination
  by (relation "measure (\<lambda>(piece, s). length s)")
     (auto simp: less_Suc_eq_le length_dropWhile_le)

definition splitWs :: "js_string \<Rightarrow> js_string list" where
  "splitWs s = splitWsAcc [] s"

text \<open>\<^verbatim>\<open>s.startsWith(t)\<close> and \<^verbatim>\<open>s.includes(t)\<close>\<close>

definition startsWith :: "js_string \<Rightarrow> js_string \<Rightarrow> bool" where
  "startsWith s t = prefix t s"

fun includesStr :: "js_string \<Rightarrow> js_string \<Rightarrow> bool" where
  "includesStr [] t = (t = [])"
| "includesStr (c # cs) t = (prefix t (c # cs) \<or> includesStr cs t)"

text \<open>
  An array read \<^verbatim>\<open>xs[i]\<close>: \<^verbatim>\<open>undefined\<close> (here \<open>None\<close>) outside the array, never an
  exception.
\<close>

definition js_index :: "'a list \<Rightarrow> int \<Rightarrow> 'a option" where
  "js_index xs i = (if 0 \<le> i \<and> i < int (length xs) then Some (xs ! nat i) else None)"

section \<open>The WSL detector (wsl-detector.ts)\<close>

record ParsedWslList =
  parsed_version :: "nat option"
  parsed_defaultDistro :: "js_string option"
  parsed_distros :: "js_string list"

text \<open>The lines of the output: split at LF, trimmed, the empty ones dropped.\<close>

definition outputLines :: "js_string \<Rightarrow> js_string list" where
  "outputLines output = filter (\<lambda>line. line \<noteq> []) (map trim (splitOn 0x0A output))"

definition isHeaderLine :: "js_string \<Rightarrow> bool" where
  "isHeaderLine line \<longleftrightarrow>
     includesStr line (js ''NAME'') \<or> includesStr line (js ''STATE'') \<or>
     includesStr line (js ''VERSION'')"

definition dataLines :: "js_string \<Rightarrow> js_string list" where
  "dataLines output = filter (\<lambda>line. \<not> isHeaderLine line) (outputLines output)"

text \<open>\<^verbatim>\<open>line.replace(/^\*\s*/, '')\<close>: a star at the start goes, with the white space after it.\<close>

definition stripDefaultMarker :: "js_string \<Rightarrow> js_string" where
  "stripDefaultMarker line =
     (case line of
        [] \<Rightarrow> []
      | c # cs \<Rightarrow> if c = 0x2A then dropWhile isWhiteSpace cs else line)"

text \<open>
  \<^verbatim>\<open>Number.parseInt(versionStr, 10)\<close>, which the source calls on the strings
  \<^verbatim>\<open>'1'\<close> and \<^verbatim>\<open>'2'\<close> only.
\<close>

definition parseVersionDigit :: "js_string \<Rightarrow> nat" where
  "parseVersionDigit versionStr = (if versionStr = js ''1'' then 1 else 2)"

text \<open>One round of the loop over the data lines; \<^verbatim>\<open>continue\<close> returns the state as it is.\<close>

definition parseLine :: "ParsedWslList \<Rightarrow> js_string \<Rightarrow> ParsedWslList" where
  "parseLine st line =
     (let isDefault = startsWith line (js ''*'');
          cleanLine = trim (stripDefaultMarker line);
          parts = splitWs cleanLine
      in if length parts < 3 then st
         else
           let distroName = js_index parts 0;
               versionStr = js_index parts (int (length parts) - 1)
           in case distroName of
                None \<Rightarrow> st
              | Some name \<Rightarrow>
                  if name = [] then st
                  else st\<lparr>parsed_distros := parsed_distros st @ [name],
                          parsed_defaultDistro :=
                            (if isDefault then Some name else parsed_defaultDistro st),
                          parsed_version :=
                            (case versionStr of
                               None \<Rightarrow> parsed_version st
                             | Some v \<Rightarrow>
                                 if isDefault \<and> (v = js ''1'' \<or> v = js ''2'')
                                 then Some (parseVersionDigit v)
                                 else parsed_version st)\<rparr>)"

definition parseWslListOutput :: "js_string \<Rightarrow> ParsedWslList" where
  "parseWslListOutput output =
     foldl parseLine
       \<lparr>parsed_version = None, parsed_defaultDistro = None, parsed_distros = []\<rparr>
       (dataLines output)"

record WslStatus =
  wsl_available :: bool
  wsl_version :: "nat option"
  wsl_defaultDistro :: "js_string option"
  wsl_distros :: "js_string list"
  wsl_error :: "js_string option"

text \<open>
  The messages of the detector, as code units:
  U+975E \<open>' Windows '\<close> U+5E73 U+53F0;
  \<open>'WSL '\<close> U+5DF2 U+5B89 U+88C5 U+4F46 U+672A U+5B89 U+88C5 U+4EFB U+4F55 \<open>' Linux '\<close>
  U+53D1 U+884C U+7248;
  \<open>'WSL '\<close> U+672A U+5B89 U+88C5;
  \<open>'WSL '\<close> U+68C0 U+6D4B U+5931 U+8D25 \<open>': '\<close>.
\<close>

definition msgNonWindows :: js_string where
  "msgNonWindows = [0x975E] @ js '' Windows '' @ [0x5E73, 0x53F0]"

definition msgNoDistro :: js_string where
  "msgNoDistro =
     js ''WSL '' @ [0x5DF2, 0x5B89, 0x88C5, 0x4F46, 0x672A, 0x5B89, 0x88C5, 0x4EFB, 0x4F55] @
     js '' Linux '' @ [0x53D1, 0x884C, 0x7248]"

definition msgNotInstalled :: js_string where
  "msgNotInstalled = js ''WSL '' @ [0x672A, 0x5B89, 0x88C5]"

definition msgDetectFailed :: "js_string \<Rightarrow> js_string" where
  "msgDetectFailed errorMessage =
     js ''WSL '' @ [0x68C0, 0x6D4B, 0x5931, 0x8D25] @ js '': '' @ errorMessage"

text \<open>
  What \<^verbatim>\<open>execSync\<close> does: it returns the output of the command, or throws; of a thrown
  value the detector reads the message only.
\<close>

datatype exec_result = ExecReturns js_string | ExecThrows js_string

definition detectWsl :: "js_string \<Rightarrow> exec_result \<Rightarrow> WslStatus" where
  "detectWsl platform execSync =
     (if platform \<noteq> js ''win32'' then
        \<lparr>wsl_available = False, wsl_version = None, wsl_defaultDistro = None,
         wsl_distros = [], wsl_error = Some msgNonWindows\<rparr>
      else
        case execSync of
          ExecReturns output \<Rightarrow>
            (let parsed = parseWslListOutput output
             in if length (parsed_distros parsed) = 0 then
                  \<lparr>wsl_available = False, wsl_version = None, wsl_defaultDistro = None,
                   wsl_distros = [], wsl_error = Some msgNoDistro\<rparr>
                else
                  \<lparr>wsl_available = True, wsl_version = parsed_version parsed,
                   wsl_defaultDistro = parsed_defaultDistro parsed,
                   wsl_distros = parsed_distros parsed, wsl_error = None\<rparr>)
        | ExecThrows errorMessage \<Rightarrow>
            if includesStr errorMessage (js ''wsl.exe'') \<and>
               (includesStr errorMessage (js ''not found'') \<or>
                includesStr errorMessage (js ''not recognized''))
            then
              \<lparr>wsl_available = False, wsl_version = None, wsl_defaultDistro = None,
               wsl_distros = [], wsl_error = Some msgNotInstalled\<rparr>
            else
              \<lparr>wsl_available = False, wsl_version = None, wsl_defaultDistro = None,
               wsl_distros = [], wsl_error = Some (msgDetectFailed errorMessage)\<rparr>)"

section \<open>The runtime types (runtime.ts)\<close>

text \<open>
  \<^verbatim>\<open>NodeRuntimeStatus\<close>, \<^verbatim>\<open>GitRuntimeStatus\<close> and \<^verbatim>\<open>GitBashStatus\<close> have the same four
  fields; \<^verbatim>\<open>BunRuntimeStatus\<close> has a fifth one.
\<close>

record ToolStatus =
  available :: bool
  path :: "js_string option"
  version :: "js_string option"
  error :: "js_string option"

type_synonym NodeRuntimeStatus = ToolStatus
type_synonym GitRuntimeStatus = ToolStatus
type_synonym GitBashStatus = ToolStatus

datatype bun_source = System | Bundled | Vendor

record BunRuntimeStatus = ToolStatus +
  source :: "bun_source option"

datatype recommended_shell = GitBashShell | WslShell

record ShellEnvironmentStatus =
  gitBash :: GitBashStatus
  wsl :: WslStatus
  recommended :: "recommended_shell option"

record RuntimeStatus =
  node :: NodeRuntimeStatus
  bun :: BunRuntimeStatus
  git :: GitRuntimeStatus
  shell :: "ShellEnvironmentStatus option"
  envLoaded :: bool
  initializedAt :: int

text \<open>Every option is an optional boolean: absent, false or true.\<close>

record RuntimeInitOptions =
  skipEnvLoad :: "bool option"
  skipNodeDetection :: "bool option"
  skipBunDetection :: "bool option"
  skipGitDetection :: "bool option"
  skipShellDetection :: "bool option"

definition truthy :: "bool option \<Rightarrow> bool" where
  "truthy flag \<longleftrightarrow> flag = Some True"

record ShellEnvResult =
  success :: bool
  loadedCount :: nat
  env_error :: "js_string option"

section \<open>The coordinator\<close>

text \<open>
  The coordinator awaits functions of other modules. What each of them does when it is
  called is given by the environment: it returns a value or it throws. For the WSL detector
  above the outcome is \<open>Inr (detectWsl platform r)\<close>, where \<open>r\<close> is what \<^verbatim>\<open>execSync\<close> does;
  the coordinator is modelled for any outcome of that call as well.
\<close>

datatype js_error = JsError js_string

record environment =
  process_platform :: js_string
  date_now :: int
  loadShellEnv_outcome :: "js_error + ShellEnvResult"
  detectNodeRuntime_outcome :: "js_error + NodeRuntimeStatus"
  detectBunRuntime_outcome :: "js_error + BunRuntimeStatus"
  detectGitRuntime_outcome :: "js_error + GitRuntimeStatus"
  detectGitBash_outcome :: "js_error + GitBashStatus"
  detectWsl_outcome :: "js_error + WslStatus"

datatype call =
  CallLoadShellEnv | CallDetectNodeRuntime | CallDetectBunRuntime | CallDetectGitRuntime |
  CallDetectGitBash | CallDetectWsl

text \<open>
  The two variables of the module, and the calls made to the other modules so far (the
  external processes are started inside those calls).
\<close>

record state =
  runtimeStatusCache :: "RuntimeStatus option"
  isInitialized :: bool
  calls :: "call list"

definition called :: "call \<Rightarrow> state \<Rightarrow> state" where
  "called c st = st\<lparr>calls := calls st @ [c]\<rparr>"

text \<open>
  The messages of the substituted statuses: U+5DF2 U+8DF3 U+8FC7 \<open>' Node.js '\<close> U+68C0 U+6D4B,
  and the same with \<open>' Bun '\<close> and \<open>' Git '\<close>.
\<close>

definition msgSkipNode :: js_string where
  "msgSkipNode = [0x5DF2, 0x8DF3, 0x8FC7] @ js '' Node.js '' @ [0x68C0, 0x6D4B]"

definition msgSkipBun :: js_string where
  "msgSkipBun = [0x5DF2, 0x8DF3, 0x8FC7] @ js '' Bun '' @ [0x68C0, 0x6D4B]"

definition msgSkipGit :: js_string where
  "msgSkipGit = [0x5DF2, 0x8DF3, 0x8FC7] @ js '' Git '' @ [0x68C0, 0x6D4B]"

text \<open>
  Step 5 of \<^verbatim>\<open>initializeRuntime\<close>, with the \<^verbatim>\<open>try\<close> block around the two shell
  detectors: an exception of either leaves \<^verbatim>\<open>shellEnvironmentStatus\<close> undefined.
\<close>

definition detectShellEnvironment ::
  "RuntimeInitOptions \<Rightarrow> environment \<Rightarrow> state \<Rightarrow> ShellEnvironmentStatus option \<times> state" where
  "detectShellEnvironment options env st =
     (if process_platform env = js ''win32'' \<and> \<not> truthy (skipShellDetection options) then
        case detectGitBash_outcome env of
          Inl e \<Rightarrow> (None, called CallDetectGitBash st)
        | Inr gitBashStatus \<Rightarrow>
            (case detectWsl_outcome env of
               Inl e \<Rightarrow> (None, called CallDetectWsl (called CallDetectGitBash st))
             | Inr wslStatus \<Rightarrow>
                 (let recommended =
                        (if available gitBashStatus then Some GitBashShell
                         else if wsl_available wslStatus then Some WslShell
                         else None)
                  in (Some \<lparr>gitBash = gitBashStatus, wsl = wslStatus,
                            recommended = recommended\<rparr>,
                      called CallDetectWsl (called CallDetectGitBash st))))
      else (None, st))"

text \<open>
  Steps 1 to 4 of \<^verbatim>\<open>initializeRuntime\<close>. An exception of \<^verbatim>\<open>loadShellEnv\<close> is caught;
  a skipped detector is not called and a fixed status stands in for its result.
\<close>

definition loadShellEnvStep :: "RuntimeInitOptions \<Rightarrow> environment \<Rightarrow> state \<Rightarrow> bool \<times> state" where
  "loadShellEnvStep options env st =
     (if \<not> truthy (skipEnvLoad options) then
        ((case loadShellEnv_outcome env of
            Inr shellEnvResult \<Rightarrow> success shellEnvResult
          | Inl e \<Rightarrow> False),
         called CallLoadShellEnv st)
      else (False, st))"

definition detectNodeStep ::
  "RuntimeInitOptions \<Rightarrow> environment \<Rightarrow> state \<Rightarrow> (js_error + NodeRuntimeStatus) \<times> state" where
  "detectNodeStep options env st =
     (if truthy (skipNodeDetection options) then
        (Inr \<lparr>available = False, path = None, version = None, error = Some msgSkipNode\<rparr>, st)
      else (detectNodeRuntime_outcome env, called CallDetectNodeRuntime st))"

definition detectBunStep ::
  "RuntimeInitOptions \<Rightarrow> environment \<Rightarrow> state \<Rightarrow> (js_error + BunRuntimeStatus) \<times> state" where
  "detectBunStep options env st =
     (if truthy (skipBunDetection options) then
        (Inr \<lparr>available = False, path = None, version = None, error = Some msgSkipBun,
              source = None\<rparr>, st)
      else (detectBunRuntime_outcome env, called CallDetectBunRuntime st))"

definition detectGitStep ::
  "RuntimeInitOptions \<Rightarrow> environment \<Rightarrow> state \<Rightarrow> (js_error + GitRuntimeStatus) \<times> state" where
  "detectGitStep options env st =
     (if truthy (skipGitDetection options) then
        (Inr \<lparr>available = False, path = None, version = None, error = Some msgSkipGit\<rparr>, st)
      else (detectGitRuntime_outcome env, called CallDetectGitRuntime st))"

text \<open>
  \<^verbatim>\<open>initializeRuntime\<close>. An exception of the Node, Bun or Git detector is not caught: the
  call ends there, before the cache is written.
\<close>

definition initializeRuntime ::
  "RuntimeInitOptions \<Rightarrow> environment \<Rightarrow> state \<Rightarrow> (js_error + RuntimeStatus) \<times> state" where
  "initializeRuntime options env st0 =
     (let (envLoaded, st1) = loadShellEnvStep options env st0
      in
        (case detectNodeStep options env st1 of
           (Inl e, st2) \<Rightarrow> (Inl e, st2)
         | (Inr nodeStatus, st2) \<Rightarrow>
        (case detectBunStep options env st2 of
           (Inl e, st3) \<Rightarrow> (Inl e, st3)
         | (Inr bunStatus, st3) \<Rightarrow>
        (case detectGitStep options env st3 of
           (Inl e, st4) \<Rightarrow> (Inl e, st4)
         | (Inr gitStatus, st4) \<Rightarrow>
             (let (shellEnvironmentStatus, st5) = detectShellEnvironment options env st4;
                  runtimeStatus =
                    \<lparr>node = nodeStatus, bun = bunStatus, git = gitStatus,
                     shell = shellEnvironmentStatus, envLoaded = envLoaded,
                     initializedAt = date_now env\<rparr>
              in (Inr runtimeStatus,
                  st5\<lparr>runtimeStatusCache := Some runtimeStatus,
                      isInitialized := True\<rparr>))))))"

definition getRuntimeStatus :: "state \<Rightarrow> RuntimeStatus option" where
  "getRuntimeStatus st = runtimeStatusCache st"

definition isRuntimeInitialized :: "state \<Rightarrow> bool" where
  "isRuntimeInitialized st = isInitialized st"

definition reinitializeRuntime ::
  "RuntimeInitOptions \<Rightarrow> environment \<Rightarrow> state \<Rightarrow> (js_error + RuntimeStatus) \<times> state" where
  "reinitializeRuntime options env st =
     initializeRuntime options env (st\<lparr>isInitialized := False, runtimeStatusCache := None\<rparr>)"

section \<open>The detectors outside the sources\<close>

text \<open>
  Modelled from the spec: ProcessProbe (section 4.1); its code is not among the sources.
  \<^verbatim>\<open>run(command, timeoutMs)\<close> gives \<^verbatim>\<open>{stdout, exitCode}\<close> or fails with an
  ExecutionError, and a time-out is such a failure.
\<close>

datatype probe_result = ProbeReturns js_string int | ExecutionError js_string

text \<open>
  Modelled from the spec: the failures of a detector (section 7), ToolNotFound (the binary
  is absent at every searched location) and ToolUnusable (found, but the execution failed
  or timed out), and for Bun the failure of all strategies, which names the strategies that
  were tried (section 4.3). All of them surface as the error text of the status.
\<close>

datatype detect_failure =
  ToolNotFound | ToolUnusable js_string | StrategiesFailed "bun_source list"

text \<open>
  Modelled from the spec: what the detectors outside the sources find on the machine. For
  each tool the place where its executable is found, if any (sections 4.2, 4.5), and for
  Bun the candidate of each strategy (section 4.3); what the version query of a binary
  gives; the first version-like token of an output, if any; the text that describes a
  failure; the result of \<^verbatim>\<open>loadShellEnv\<close>, which never throws (section 4.7); and what
  \<^verbatim>\<open>execSync\<close> does for the WSL detector.
\<close>

record machine =
  machine_platform :: js_string
  machine_clock :: int
  shellEnvResult :: ShellEnvResult
  nodeExecutable :: "js_string option"
  gitExecutable :: "js_string option"
  bashExecutable :: "js_string option"
  bunSystem :: "js_string option"
  bunBundled :: "js_string option"
  bunVendor :: "js_string option"
  versionQuery :: "js_string \<Rightarrow> probe_result"
  versionToken :: "js_string \<Rightarrow> js_string option"
  describeFailure :: "detect_failure \<Rightarrow> js_string"
  wslListing :: exec_result

text \<open>
  Modelled from the spec: NodeDetector, GitDetector (section 4.2) and GitBashDetector
  (section 4.5, the same shape); their code is not among the sources. Find the executable,
  invoke its version flag, extract the first version-like token. A tool that is present
  with a version that cannot be parsed is available with no version. Any failure gives an
  unavailable status with a descriptive error and no path; by the data model (section 3)
  it has no version either.
\<close>

definition detectTool_spec :: "machine \<Rightarrow> js_string option \<Rightarrow> ToolStatus" where
  "detectTool_spec m executable =
     (case executable of
        None \<Rightarrow>
          \<lparr>available = False, path = None, version = None,
           error = Some (describeFailure m ToolNotFound)\<rparr>
      | Some p \<Rightarrow>
          (case versionQuery m p of
             ExecutionError e \<Rightarrow>
               \<lparr>available = False, path = None, version = None,
                error = Some (describeFailure m (ToolUnusable e))\<rparr>
           | ProbeReturns stdout exitCode \<Rightarrow>
               \<lparr>available = True, path = Some p, version = versionToken m stdout,
                error = None\<rparr>))"

definition detectNodeRuntime_spec :: "machine \<Rightarrow> NodeRuntimeStatus" where
  "detectNodeRuntime_spec m = detectTool_spec m (nodeExecutable m)"

definition detectGitRuntime_spec :: "machine \<Rightarrow> GitRuntimeStatus" where
  "detectGitRuntime_spec m = detectTool_spec m (gitExecutable m)"

definition detectGitBash_spec :: "machine \<Rightarrow> GitBashStatus" where
  "detectGitBash_spec m = detectTool_spec m (bashExecutable m)"

text \<open>
  Modelled from the spec: BunDetector (section 4.3); its code is not among the sources. It
  tries the system path, the bundled binary and the vendor directory, in this order. The
  first strategy that produces a runnable binary which reports its version wins and gives
  the source. When all three fail the status is unavailable, with no source and an error
  that names the strategies; by the data model (section 3) it has no path and no version.
\<close>

definition tryBunStrategy :: "machine \<Rightarrow> js_string option \<Rightarrow> (js_string \<times> js_string) option" where
  "tryBunStrategy m candidate =
     (case candidate of
        None \<Rightarrow> None
      | Some p \<Rightarrow>
          (case versionQuery m p of
             ExecutionError e \<Rightarrow> None
           | ProbeReturns stdout exitCode \<Rightarrow>
               (case versionToken m stdout of
                  None \<Rightarrow> None
                | Some v \<Rightarrow> Some (p, v))))"

fun firstBunStrategy ::
  "machine \<Rightarrow> (bun_source \<times> js_string option) list \<Rightarrow> BunRuntimeStatus option" where
  "firstBunStrategy m [] = None"
| "firstBunStrategy m ((src, candidate) # rest) =
     (case tryBunStrategy m candidate of
        Some (p, v) \<Rightarrow>
          Some \<lparr>available = True, path = Some p, version = Some v, error = None,
                source = Some src\<rparr>
      | None \<Rightarrow> firstBunStrategy m rest)"

definition detectBunRuntime_spec :: "machine \<Rightarrow> BunRuntimeStatus" where
  "detectBunRuntime_spec m =
     (case firstBunStrategy m
             [(System, bunSystem m), (Bundled, bunBundled m), (Vendor, bunVendor m)] of
        Some status \<Rightarrow> status
      | None \<Rightarrow>
          \<lparr>available = False, path = None, version = None,
           error = Some (describeFailure m (StrategiesFailed [System, Bundled, Vendor])),
           source = None\<rparr>)"

text \<open>
  Modelled from the spec: the environment of the coordinator on such a machine. No
  detector throws (sections 4.1 and 7), so every outcome is a status; the WSL status is
  the one of \<open>detectWsl\<close> above.
\<close>

definition machineEnvironment :: "machine \<Rightarrow> environment" where
  "machineEnvironment m =
     \<lparr>process_platform = machine_platform m,
      date_now = machine_clock m,
      loadShellEnv_outcome = Inr (shellEnvResult m),
      detectNodeRuntime_outcome = Inr (detectNodeRuntime_spec m),
      detectBunRuntime_outcome = Inr (detectBunRuntime_spec m),
      detectGitRuntime_outcome = Inr (detectGitRuntime_spec m),
      detectGitBash_outcome = Inr (detectGitBash_spec m),
      detectWsl_outcome = Inr (detectWsl (machine_platform m) (wslListing m))\<rparr>"

section \<open>Auxiliary definitions\<close>

text \<open>
  The rows of the listing, in the words of the parser: the parts of a line, the lines with
  at least three parts, those of them that start with the marker of the default
  distribution, and those of the latter whose last part is a version number.
\<close>

definition rowParts :: "js_string \<Rightarrow> js_string list" where
  "rowParts line = splitWs (trim (stripDefaultMarker line))"

definition isRow :: "js_string \<Rightarrow> bool" where
  "isRow line \<longleftrightarrow> 3 \<le> length (rowParts line)"

definition isDefaultRow :: "js_string \<Rightarrow> bool" where
  "isDefaultRow line \<longleftrightarrow> isRow line \<and> startsWith line (js ''*'')"

definition isVersionRow :: "js_string \<Rightarrow> bool" where
  "isVersionRow line \<longleftrightarrow>
     isDefaultRow line \<and> (last (rowParts line) = js ''1'' \<or> last (rowParts line) = js ''2'')"

definition latest :: "('a \<Rightarrow> bool) \<Rightarrow> 'a list \<Rightarrow> 'a option" where
  "latest P xs = (case rev (filter P xs) of [] \<Rightarrow> None | x # _ \<Rightarrow> Some x)"

text \<open>
  What each step of \<^verbatim>\<open>initializeRuntime\<close> computes and which calls it makes, apart from
  the state.
\<close>

definition envLoadedResult :: "RuntimeInitOptions \<Rightarrow> environment \<Rightarrow> bool" where
  "envLoadedResult options env \<longleftrightarrow>
     \<not> truthy (skipEnvLoad options) \<and>
     (case loadShellEnv_outcome env of Inr r \<Rightarrow> success r | Inl e \<Rightarrow> False)"

definition nodeResult :: "RuntimeInitOptions \<Rightarrow> environment \<Rightarrow> js_error + NodeRuntimeStatus" where
  "nodeResult options env =
     (if truthy (skipNodeDetection options)
      then Inr \<lparr>available = False, path = None, version = None, error = Some msgSkipNode\<rparr>
      else detectNodeRuntime_outcome env)"

definition bunResult :: "RuntimeInitOptions \<Rightarrow> environment \<Rightarrow> js_error + BunRuntimeStatus" where
  "bunResult options env =
     (if truthy (skipBunDetection options)
      then Inr \<lparr>available = False, path = None, version = None, error = Some msgSkipBun,
                source = None\<rparr>
      else detectBunRuntime_outcome env)"

definition gitResult :: "RuntimeInitOptions \<Rightarrow> environment \<Rightarrow> js_error + GitRuntimeStatus" where
  "gitResult options env =
     (if truthy (skipGitDetection options)
      then Inr \<lparr>available = False, path = None, version = None, error = Some msgSkipGit\<rparr>
      else detectGitRuntime_outcome env)"

definition shellResult :: "RuntimeInitOptions \<Rightarrow> environment \<Rightarrow> ShellEnvironmentStatus option" where
  "shellResult options env =
     (if process_platform env = js ''win32'' \<and> \<not> truthy (skipShellDetection options) then
        case detectGitBash_outcome env of
          Inl e \<Rightarrow> None
        | Inr g \<Rightarrow>
            (case detectWsl_outcome env of
               Inl e \<Rightarrow> None
             | Inr w \<Rightarrow>
                 Some \<lparr>gitBash = g, wsl = w,
                       recommended =
                         (if available g then Some GitBashShell
                          else if wsl_available w then Some WslShell else None)\<rparr>)
      else None)"

definition envCalls :: "RuntimeInitOptions \<Rightarrow> call list" where
  "envCalls options = (if truthy (skipEnvLoad options) then [] else [CallLoadShellEnv])"

definition nodeCalls :: "RuntimeInitOptions \<Rightarrow> call list" where
  "nodeCalls options =
     (if truthy (skipNodeDetection options) then [] else [CallDetectNodeRuntime])"

definition bunCalls :: "RuntimeInitOptions \<Rightarrow> call list" where
  "bunCalls options = (if truthy (skipBunDetection options) then [] else [CallDetectBunRuntime])"

definition gitCalls :: "RuntimeInitOptions \<Rightarrow> call list" where
  "gitCalls options = (if truthy (skipGitDetection options) then [] else [CallDetectGitRuntime])"

definition shellCalls :: "RuntimeInitOptions \<Rightarrow> environment \<Rightarrow> call list" where
  "shellCalls options env =
     (if process_platform env = js ''win32'' \<and> \<not> truthy (skipShellDetection options) then
        case detectGitBash_outcome env of
          Inl e \<Rightarrow> [CallDetectGitBash]
        | Inr g \<Rightarrow> [CallDetectGitBash, CallDetectWsl]
      else [])"

definition moreCalls :: "call list \<Rightarrow> state \<Rightarrow> state" where
  "moreCalls cs st = st\<lparr>calls := calls st @ cs\<rparr>"

text \<open>Values for the examples.\<close>

definition specListing :: js_string where
  "specListing =
     js ''  NAME            STATE           VERSION'' @ [0x0A] @
     js ''* Ubuntu          Running         2'' @ [0x0A] @
     js ''  Debian          Stopped         1''"

definition plainListing :: js_string where
  "plainListing =
     js ''NAME STATE VERSION'' @ [0x0A] @ js ''* Ubuntu Running 2'' @ [0x0A] @
     js ''Debian Stopped 1''"

definition headerOnlyListing :: js_string where
  "headerOnlyListing = js '' NAME'' @ [0x0A] @ js '' '' @ [0x0A]"

definition threeLineListing :: js_string where
  "threeLineListing = js ''A x 1'' @ [0x0A] @ js ''*B y z 2'' @ [0x0A] @ js ''*C 2''"

definition exampleTool :: ToolStatus where
  "exampleTool =
     \<lparr>available = True, path = Some (js ''/usr/bin/tool''), version = Some (js ''1.2.3''),
      error = None\<rparr>"

definition exampleBun :: BunRuntimeStatus where
  "exampleBun =
     \<lparr>available = True, path = Some (js ''/usr/bin/bun''), version = Some (js ''1.1.0''),
      error = None, source = Some System\<rparr>"

definition exampleWsl :: WslStatus where
  "exampleWsl =
     \<lparr>wsl_available = True, wsl_version = Some 2, wsl_defaultDistro = Some (js ''Ubuntu''),
      wsl_distros = [js ''Ubuntu''], wsl_error = None\<rparr>"

definition exampleEnv :: environment where
  "exampleEnv =
     \<lparr>process_platform = js ''win32'', date_now = 1700000000000,
      loadShellEnv_outcome = Inr \<lparr>success = True, loadedCount = 3, env_error = None\<rparr>,
      detectNodeRuntime_outcome = Inr exampleTool,
      detectBunRuntime_outcome = Inr exampleBun,
      detectGitRuntime_outcome = Inr exampleTool,
      detectGitBash_outcome = Inr exampleTool,
      detectWsl_outcome = Inr exampleWsl\<rparr>"

definition noOptions :: RuntimeInitOptions where
  "noOptions =
     \<lparr>skipEnvLoad = None, skipNodeDetection = None, skipBunDetection = None,
      skipGitDetection = None, skipShellDetection = None\<rparr>"

definition exampleStatus :: RuntimeStatus where
  "exampleStatus =
     \<lparr>node = exampleTool, bun = exampleBun, git = exampleTool, shell = None,
      envLoaded = False, initializedAt = 1600000000000\<rparr>"

definition initializedState :: state where
  "initializedState =
     \<lparr>runtimeStatusCache = Some exampleStatus, isInitialized = True, calls = []\<rparr>"

definition exampleMachine :: machine where
  "exampleMachine =
     \<lparr>machine_platform = js ''win32'', machine_clock = 1700000000000,
      shellEnvResult = \<lparr>success = True, loadedCount = 3, env_error = None\<rparr>,
      nodeExecutable = Some (js ''node''), gitExecutable = None,
      bashExecutable = Some (js ''bash''),
      bunSystem = None, bunBundled = Some (js ''bun''), bunVendor = None,
      versionQuery =
        (\<lambda>p. if p = js ''node'' then ProbeReturns (js ''v20'') 0
             else ExecutionError (js ''timeout'')),
      versionToken = (\<lambda>stdout. Some stdout),
      describeFailure =
        (\<lambda>f. case f of
               ToolNotFound \<Rightarrow> js ''not found''
             | ToolUnusable e \<Rightarrow> e
             | StrategiesFailed tried \<Rightarrow> js ''system, bundled, vendor''),
      wslListing = ExecThrows (js ''timeout'')\<rparr>"

section \<open>Strings and lines\<close>

text \<open>The two splits on small strings, as JavaScript gives them.\<close>

lemma splitOn_examples:
  "splitOn 0x0A (js ''a'' @ [0x0A, 0x0A] @ js ''b'' @ [0x0A]) = [js ''a'', [], js ''b'', []]"
  "splitOn 0x0A [] = [Nil]"
  by (simp_all add: splitOn_def js_def)

lemma splitWs_examples:
  "splitWs (js '' a  b '') = [[], js ''a'', js ''b'', []]"
  "splitWs (js ''a'' @ [0x0009, 0x3000] @ js ''b'') = [js ''a'', js ''b'']"
  "splitWs [] = [Nil]"
  by (simp_all add: splitWs_def js_def isWhiteSpace_def)

lemma includesStr_sublist: "includesStr s t \<longleftrightarrow> sublist t s"
  by (induction s) (simp_all add: sublist_Cons_right)








lemma trim_prefix_dropWhile: "prefix (trim s) (dropWhile isWhiteSpace s)"
proof -
  let ?y = "dropWhile isWhiteSpace s"
  have "?y = rev (takeWhile isWhiteSpace (rev ?y) @ dropWhile isWhiteSpace (rev ?y))"
    by (simp only: takeWhile_dropWhile_id rev_rev_ident)
  also have "\<dots> = trim s @ rev (takeWhile isWhiteSpace (rev ?y))"
    by (simp only: rev_append trim_def)
  finally show ?thesis
    by (rule prefixI)
qed

lemma trim_sublist: "sublist (trim s) s"
proof -
  have "sublist (trim s) (dropWhile isWhiteSpace s)"
    using trim_prefix_dropWhile by (rule prefix_imp_sublist)
  moreover have "sublist (dropWhile isWhiteSpace s) s"
    by (rule suffix_imp_sublist) (rule suffix_dropWhile)
  ultimately show ?thesis
    by (rule sublist_order.order.trans)
qed

lemma hd_trim_not_space: "trim s \<noteq> [] \<Longrightarrow> \<not> isWhiteSpace (hd (trim s))"
proof -
  assume ne: "trim s \<noteq> []"
  from trim_prefix_dropWhile obtain r where r: "dropWhile isWhiteSpace s = trim s @ r"
    by (auto simp: prefix_def)
  with ne have "dropWhile isWhiteSpace s \<noteq> []" by auto
  then have "\<not> isWhiteSpace (hd (dropWhile isWhiteSpace s))"
    by (rule hd_dropWhile)
  with r ne show ?thesis by simp
qed

lemma all_dropWhile: "(\<forall>x\<in>set (dropWhile P s). P x) \<longleftrightarrow> (\<forall>x\<in>set s. P x)"
  by (induction s) auto

lemma trim_blank: "trim s = [] \<longleftrightarrow> list_all isWhiteSpace s"
  by (simp add: trim_def list_all_iff dropWhile_eq_Nil_conv all_dropWhile)


lemma hd_splitWsAcc: "piece \<noteq> [] \<Longrightarrow> hd (splitWsAcc piece s) \<noteq> []"
  by (induction piece s rule: splitWsAcc.induct) simp_all



lemma hd_splitWs_trim: "trim s \<noteq> [] \<Longrightarrow> hd (splitWs (trim s)) \<noteq> []"
proof -
  assume ne: "trim s \<noteq> []"
  then obtain c cs where eq: "trim s = c # cs" by (cases "trim s") auto
  with hd_trim_not_space [OF ne] have "\<not> isWhiteSpace c" by simp
  then have "splitWs (trim s) = splitWsAcc [c] cs"
    by (simp add: splitWs_def eq)
  then show ?thesis by (simp add: hd_splitWsAcc)
qed

lemma splitWs_Nil: "splitWs [] = [Nil]"
  by (simp add: splitWs_def)

lemma isRow_name: "isRow line \<Longrightarrow> hd (rowParts line) \<noteq> []"
proof -
  assume row: "isRow line"
  have "trim (stripDefaultMarker line) \<noteq> []"
  proof
    assume "trim (stripDefaultMarker line) = []"
    then have "rowParts line = [Nil]" by (simp add: rowParts_def splitWs_Nil)
    with row show False by (simp add: isRow_def)
  qed
  then show ?thesis
    unfolding rowParts_def by (rule hd_splitWs_trim)
qed

lemma js_index_first: "xs \<noteq> [] \<Longrightarrow> js_index xs 0 = Some (hd xs)"
  by (simp add: js_index_def hd_conv_nth)

lemma js_index_last: "xs \<noteq> [] \<Longrightarrow> js_index xs (int (length xs) - 1) = Some (last xs)"
  by (cases xs rule: rev_cases) (simp_all add: js_index_def nth_append nat_diff_distrib)

lemma parseLine_eq:
  "parseLine st line =
     (if isRow line then
        st\<lparr>parsed_distros := parsed_distros st @ [hd (rowParts line)],
           parsed_defaultDistro :=
             (if isDefaultRow line then Some (hd (rowParts line)) else parsed_defaultDistro st),
           parsed_version :=
             (if isVersionRow line then Some (parseVersionDigit (last (rowParts line)))
              else parsed_version st)\<rparr>
      else st)"
proof (cases "isRow line")
  case False
  then show ?thesis
    by (simp add: parseLine_def isRow_def rowParts_def Let_def)
next
  case True
  then have ne: "rowParts line \<noteq> []" and len: "\<not> length (rowParts line) < 3"
    by (auto simp: isRow_def)
  note idx = js_index_first [OF ne] js_index_last [OF ne] isRow_name [OF True]
  show ?thesis
    using True len idx
    by (simp add: parseLine_def Let_def rowParts_def [symmetric] isDefaultRow_def
        isVersionRow_def)
qed


lemma latest_snoc: "latest P (xs @ [x]) = (if P x then Some x else latest P xs)"
  by (simp add: latest_def)

lemma latest_Nil: "latest P [] = None"
  by (simp add: latest_def)

lemma foldl_parseLine:
  "foldl parseLine st ls =
     st\<lparr>parsed_distros := parsed_distros st @ map (\<lambda>l. hd (rowParts l)) (filter isRow ls),
        parsed_defaultDistro :=
          (case latest isDefaultRow ls of
             None \<Rightarrow> parsed_defaultDistro st
           | Some l \<Rightarrow> Some (hd (rowParts l))),
        parsed_version :=
          (case latest isVersionRow ls of
             None \<Rightarrow> parsed_version st
           | Some l \<Rightarrow> Some (parseVersionDigit (last (rowParts l))))\<rparr>"
proof (induction ls rule: rev_induct)
  case Nil
  show ?case by (simp add: latest_Nil)
next
  case (snoc x xs)
  have drow: "isDefaultRow x \<Longrightarrow> isRow x" and vrow: "isVersionRow x \<Longrightarrow> isRow x"
    by (simp_all add: isDefaultRow_def isVersionRow_def)
  have step: "foldl parseLine st (xs @ [x]) = parseLine (foldl parseLine st xs) x"
    by simp
  show ?case
  proof (cases "isRow x")
    case True
    then show ?thesis
      unfolding step by (subst parseLine_eq) (simp add: snoc.IH latest_snoc)
  next
    case False
    with drow vrow have "\<not> isDefaultRow x" "\<not> isVersionRow x" by auto
    with False show ?thesis
      unfolding step by (subst parseLine_eq) (simp add: snoc.IH latest_snoc)
  qed
qed

lemma dropWhile_keeps_middle:
  assumes "t \<noteq> []" and "\<not> P (hd t)"
  shows "\<exists>ps'. dropWhile P (ps @ t @ ss) = ps' @ t @ ss"
proof (cases "\<forall>x\<in>set ps. P x")
  case True
  from assms obtain c cs where t: "t = c # cs" and c: "\<not> P c" by (cases t) auto
  from True have "dropWhile P (ps @ t @ ss) = dropWhile P (t @ ss)"
    by (intro dropWhile_append2) simp
  also from c have "\<dots> = [] @ t @ ss"
    by (simp add: t)
  finally show ?thesis by blast
next
  case False
  then obtain x where "x \<in> set ps" "\<not> P x" by blast
  then have "dropWhile P (ps @ t @ ss) = dropWhile P ps @ t @ ss"
    by (rule dropWhile_append1)
  then show ?thesis by blast
qed

lemma trim_keeps_middle:
  assumes "sublist t s" and "t \<noteq> []" and "\<not> isWhiteSpace (hd t)" and "\<not> isWhiteSpace (last t)"
  shows "sublist t (trim s)"
proof -
  from assms(1) obtain ps ss where s: "s = ps @ t @ ss"
    by (auto simp: sublist_def)
  from dropWhile_keeps_middle [where P = isWhiteSpace and t = t and ps = ps and ss = ss]
    assms(2,3)
  obtain ps' where front: "dropWhile isWhiteSpace (ps @ t @ ss) = ps' @ t @ ss"
    by blast
  have "rev t \<noteq> []" "\<not> isWhiteSpace (hd (rev t))"
    using assms(2,4) by (simp_all add: hd_rev)
  with dropWhile_keeps_middle [where P = isWhiteSpace and t = "rev t" and ps = "rev ss"
      and ss = "rev ps'"]
  obtain ss' where
    rear: "dropWhile isWhiteSpace (rev ss @ rev t @ rev ps') = ss' @ rev t @ rev ps'"
    by blast
  have "trim s = ps' @ t @ rev ss'"
    by (simp add: trim_def s front rear)
  then show ?thesis
    by (auto simp: sublist_def)
qed

lemma header_words:
  "js ''NAME'' \<noteq> []" "\<not> isWhiteSpace (hd (js ''NAME''))" "\<not> isWhiteSpace (last (js ''NAME''))"
  "js ''STATE'' \<noteq> []" "\<not> isWhiteSpace (hd (js ''STATE''))" "\<not> isWhiteSpace (last (js ''STATE''))"
  "js ''VERSION'' \<noteq> []" "\<not> isWhiteSpace (hd (js ''VERSION''))"
  "\<not> isWhiteSpace (last (js ''VERSION''))"
  by (simp_all add: js_def isWhiteSpace_def)

lemma isHeaderLine_trim: "isHeaderLine (trim s) \<longleftrightarrow> isHeaderLine s"
proof
  assume "isHeaderLine (trim s)"
  then show "isHeaderLine s"
    unfolding isHeaderLine_def includesStr_sublist
    using trim_sublist [of s] by (meson sublist_order.order.trans)
next
  assume "isHeaderLine s"
  then show "isHeaderLine (trim s)"
    unfolding isHeaderLine_def includesStr_sublist
    using header_words by (meson trim_keeps_middle)
qed







lemma parseWslListOutput_rows:
  "parseWslListOutput output =
     \<lparr>parsed_version =
        map_option (\<lambda>l. parseVersionDigit (last (rowParts l)))
          (latest isVersionRow (dataLines output)),
      parsed_defaultDistro =
        map_option (\<lambda>l. hd (rowParts l)) (latest isDefaultRow (dataLines output)),
      parsed_distros = map (\<lambda>l. hd (rowParts l)) (filter isRow (dataLines output))\<rparr>"
  by (simp add: parseWslListOutput_def foldl_parseLine split: option.splits)


lemma dataLines_all_header:
  assumes "\<forall>l\<in>set (splitOn 0x0A output). list_all isWhiteSpace l \<or> isHeaderLine l"
  shows "dataLines output = []"
proof -
  have "\<not> (trim l \<noteq> [] \<and> \<not> isHeaderLine (trim l))" if "l \<in> set (splitOn 0x0A output)" for l
    using assms that by (auto simp: trim_blank isHeaderLine_trim)
  then show ?thesis
    by (auto simp: dataLines_def outputLines_def filter_empty_conv)
qed

section \<open>The steps of the coordinator\<close>

lemma moreCalls_simps [simp]:
  "runtimeStatusCache (moreCalls cs st) = runtimeStatusCache st"
  "isInitialized (moreCalls cs st) = isInitialized st"
  "calls (moreCalls cs st) = calls st @ cs"
  "moreCalls cs (moreCalls ds st) = moreCalls (ds @ cs) st"
  by (simp_all add: moreCalls_def)

lemma loadShellEnvStep_eq:
  "loadShellEnvStep options env st = (envLoadedResult options env, moreCalls (envCalls options) st)"
  by (simp add: loadShellEnvStep_def envLoadedResult_def envCalls_def moreCalls_def called_def)

lemma detectNodeStep_eq:
  "detectNodeStep options env st = (nodeResult options env, moreCalls (nodeCalls options) st)"
  by (simp add: detectNodeStep_def nodeResult_def nodeCalls_def moreCalls_def called_def)

lemma detectBunStep_eq:
  "detectBunStep options env st = (bunResult options env, moreCalls (bunCalls options) st)"
  by (simp add: detectBunStep_def bunResult_def bunCalls_def moreCalls_def called_def)

lemma detectGitStep_eq:
  "detectGitStep options env st = (gitResult options env, moreCalls (gitCalls options) st)"
  by (simp add: detectGitStep_def gitResult_def gitCalls_def moreCalls_def called_def)

lemma detectShellEnvironment_eq:
  "detectShellEnvironment options env st =
     (shellResult options env, moreCalls (shellCalls options env) st)"
  by (simp add: detectShellEnvironment_def shellResult_def shellCalls_def moreCalls_def
      called_def Let_def split: sum.splits)

lemma initializeRuntime_eq:
  "initializeRuntime options env st =
     (case nodeResult options env of
        Inl e \<Rightarrow> (Inl e, moreCalls (envCalls options @ nodeCalls options) st)
      | Inr n \<Rightarrow>
     (case bunResult options env of
        Inl e \<Rightarrow> (Inl e, moreCalls (envCalls options @ nodeCalls options @ bunCalls options) st)
      | Inr b \<Rightarrow>
     (case gitResult options env of
        Inl e \<Rightarrow>
          (Inl e,
           moreCalls (envCalls options @ nodeCalls options @ bunCalls options @ gitCalls options) st)
      | Inr g \<Rightarrow>
          (Inr \<lparr>node = n, bun = b, git = g, shell = shellResult options env,
                envLoaded = envLoadedResult options env, initializedAt = date_now env\<rparr>,
           (moreCalls (envCalls options @ nodeCalls options @ bunCalls options @
                       gitCalls options @ shellCalls options env) st)
             \<lparr>runtimeStatusCache :=
                Some \<lparr>node = n, bun = b, git = g, shell = shellResult options env,
                      envLoaded = envLoadedResult options env, initializedAt = date_now env\<rparr>,
              isInitialized := True\<rparr>))))"
  by (simp add: initializeRuntime_def loadShellEnvStep_eq detectNodeStep_eq detectBunStep_eq
      detectGitStep_eq detectShellEnvironment_eq Let_def split: sum.splits)


lemmas example_defs =
  exampleEnv_def noOptions_def initializedState_def exampleStatus_def exampleTool_def

lemmas coordinator_defs =
  initializeRuntime_def reinitializeRuntime_def loadShellEnvStep_def detectNodeStep_def
  detectBunStep_def detectGitStep_def detectShellEnvironment_def called_def truthy_def
  getRuntimeStatus_def isRuntimeInitialized_def Let_def

lemma win32_neq_linux: "js ''linux'' \<noteq> js ''win32''"
  by (simp add: js_def)

section \<open>The detectors of the spec\<close>

lemma detectWsl_unavailable:
  "\<not> wsl_available (detectWsl platform execSync) \<longrightarrow>
     wsl_error (detectWsl platform execSync) \<noteq> None \<and>
     wsl_version (detectWsl platform execSync) = None \<and>
     wsl_defaultDistro (detectWsl platform execSync) = None \<and>
     wsl_distros (detectWsl platform execSync) = []"
  by (simp add: detectWsl_def Let_def split: exec_result.splits)

lemma detectTool_spec_unavailable:
  "\<not> available (detectTool_spec m executable) \<longrightarrow>
     error (detectTool_spec m executable) \<noteq> None \<and>
     path (detectTool_spec m executable) = None \<and>
     version (detectTool_spec m executable) = None"
  by (simp add: detectTool_spec_def split: option.splits probe_result.splits)

lemma firstBunStrategy_available: "firstBunStrategy m cs = Some s \<Longrightarrow> available s"
  by (induction cs) (auto split: option.splits)

lemma detectBunRuntime_spec_unavailable:
  "\<not> available (detectBunRuntime_spec m) \<longrightarrow>
     error (detectBunRuntime_spec m) \<noteq> None \<and>
     path (detectBunRuntime_spec m) = None \<and>
     version (detectBunRuntime_spec m) = None \<and>
     source (detectBunRuntime_spec m) = None"
proof (cases "firstBunStrategy m
    [(System, bunSystem m), (Bundled, bunBundled m), (Vendor, bunVendor m)]")
  case None
  then show ?thesis by (simp add: detectBunRuntime_spec_def)
next
  case (Some s)
  then have "available s" by (rule firstBunStrategy_available)
  with Some show ?thesis by (simp add: detectBunRuntime_spec_def)
qed

lemma machine_results:
  "nodeResult options (machineEnvironment m) =
     Inr (if truthy (skipNodeDetection options)
          then \<lparr>available = False, path = None, version = None, error = Some msgSkipNode\<rparr>
          else detectNodeRuntime_spec m)"
  "bunResult options (machineEnvironment m) =
     Inr (if truthy (skipBunDetection options)
          then \<lparr>available = False, path = None, version = None, error = Some msgSkipBun,
                source = None\<rparr>
          else detectBunRuntime_spec m)"
  "gitResult options (machineEnvironment m) =
     Inr (if truthy (skipGitDetection options)
          then \<lparr>available = False, path = None, version = None, error = Some msgSkipGit\<rparr>
          else detectGitRuntime_spec m)"
  by (simp_all add: nodeResult_def bunResult_def gitResult_def machineEnvironment_def)

lemma machine_shell:
  "shellResult options (machineEnvironment m) = Some sh \<Longrightarrow>
     gitBash sh = detectGitBash_spec m \<and>
     wsl sh = detectWsl (machine_platform m) (wslListing m)"
  by (auto simp: shellResult_def machineEnvironment_def split: if_splits)

section \<open>The listing of the documentation\<close>

lemma specListing_lines:
  "outputLines specListing =
     [js ''NAME            STATE           VERSION'',
      js ''* Ubuntu          Running         2'',
      js ''Debian          Stopped         1'']"
  unfolding specListing_def
  by (simp add: outputLines_def splitOn_def trim_def js_def isWhiteSpace_def)

lemma plainListing_lines:
  "outputLines plainListing =
     [js ''NAME STATE VERSION'', js ''* Ubuntu Running 2'', js ''Debian Stopped 1'']"
  unfolding plainListing_def
  by (simp add: outputLines_def splitOn_def trim_def js_def isWhiteSpace_def)

lemma listing_headers:
  "isHeaderLine (js ''NAME            STATE           VERSION'')"
  "\<not> isHeaderLine (js ''* Ubuntu          Running         2'')"
  "\<not> isHeaderLine (js ''Debian          Stopped         1'')"
  "isHeaderLine (js ''NAME STATE VERSION'')"
  "\<not> isHeaderLine (js ''* Ubuntu Running 2'')"
  "\<not> isHeaderLine (js ''Debian Stopped 1'')"
  by (simp_all add: isHeaderLine_def js_def)

lemma listing_parts:
  "splitWs (trim (stripDefaultMarker (js ''* Ubuntu          Running         2''))) =
     [js ''Ubuntu'', js ''Running'', js ''2'']"
  "splitWs (trim (stripDefaultMarker (js ''Debian          Stopped         1''))) =
     [js ''Debian'', js ''Stopped'', js ''1'']"
  "splitWs (trim (stripDefaultMarker (js ''* Ubuntu Running 2''))) =
     [js ''Ubuntu'', js ''Running'', js ''2'']"
  "splitWs (trim (stripDefaultMarker (js ''Debian Stopped 1''))) =
     [js ''Debian'', js ''Stopped'', js ''1'']"
  by (simp_all add: splitWs_def trim_def stripDefaultMarker_def js_def isWhiteSpace_def)

lemma listing_markers:
  "startsWith (js ''* Ubuntu          Running         2'') (js ''*'')"
  "\<not> startsWith (js ''Debian          Stopped         1'') (js ''*'')"
  "startsWith (js ''* Ubuntu Running 2'') (js ''*'')"
  "\<not> startsWith (js ''Debian Stopped 1'') (js ''*'')"
  by (simp_all add: startsWith_def js_def)

lemma listing_names:
  "js ''Ubuntu'' \<noteq> []" "js ''Debian'' \<noteq> []" "js ''2'' \<noteq> js ''1''"
  by (simp_all add: js_def)

text \<open>
  Claim C1. For the listing with the header line \<^verbatim>\<open>NAME STATE VERSION\<close>, the line
  \<^verbatim>\<open>* Ubuntu Running 2\<close> and the line \<^verbatim>\<open>Debian Stopped 1\<close>, \<^verbatim>\<open>parseWslListOutput\<close> returns
  the distributions Ubuntu and Debian in this order, the default distribution Ubuntu and
  the version 2; both with the columns aligned as in the documentation and with single
  spaces.
\<close>

theorem parse_spec_listing:
  "parseWslListOutput specListing =
     \<lparr>parsed_version = Some 2, parsed_defaultDistro = Some (js ''Ubuntu''),
      parsed_distros = [js ''Ubuntu'', js ''Debian'']\<rparr> \<and>
   parseWslListOutput plainListing =
     \<lparr>parsed_version = Some 2, parsed_defaultDistro = Some (js ''Ubuntu''),
      parsed_distros = [js ''Ubuntu'', js ''Debian'']\<rparr>"
  by (simp add: parseWslListOutput_def dataLines_def specListing_lines plainListing_lines
      listing_headers parseLine_def listing_parts listing_markers listing_names js_index_def
      parseVersionDigit_def)

section \<open>Listings without distributions\<close>

text \<open>
  Claim C7. When every line of the output is blank or a header line, the WSL detector on
  Windows returns the unavailable status with the message that no distribution is
  installed, without version, default distribution or distributions. The parser is a total
  function, no operation of it throws: for any output whatsoever the detector returns one of
  the two results of its \<^verbatim>\<open>try\<close> block, never one of its \<^verbatim>\<open>catch\<close> block.
\<close>

theorem header_only_listing:
  assumes "\<forall>l\<in>set (splitOn 0x0A output). list_all isWhiteSpace l \<or> isHeaderLine l"
  shows "detectWsl (js ''win32'') (ExecReturns output) =
           \<lparr>wsl_available = False, wsl_version = None, wsl_defaultDistro = None,
            wsl_distros = [], wsl_error = Some msgNoDistro\<rparr> \<and>
         wsl_error (detectWsl (js ''win32'') (ExecReturns any_output)) =
           (if parsed_distros (parseWslListOutput any_output) = [] then Some msgNoDistro
            else None)"
proof -
  from assms have "dataLines output = []"
    by (rule dataLines_all_header)
  then have "parsed_distros (parseWslListOutput output) = []"
    by (simp add: parseWslListOutput_def)
  then show ?thesis
    by (simp add: detectWsl_def Let_def)
qed

text \<open>A header line, a blank line and the empty line after the last line feed.\<close>

theorem header_only_listing_witness:
  "splitOn 0x0A headerOnlyListing = [js '' NAME'', js '' '', []] \<and>
   isHeaderLine (js '' NAME'') \<and> list_all isWhiteSpace (js '' '') \<and>
   detectWsl (js ''win32'') (ExecReturns headerOnlyListing) =
     \<lparr>wsl_available = False, wsl_version = None, wsl_defaultDistro = None,
      wsl_distros = [], wsl_error = Some msgNoDistro\<rparr>"
proof -
  have lines: "splitOn 0x0A headerOnlyListing = [js '' NAME'', js '' '', []]"
    by (simp add: headerOnlyListing_def splitOn_def js_def)
  have each: "list_all isWhiteSpace (js '' '')" "isHeaderLine (js '' NAME'')"
    by (simp_all add: js_def isWhiteSpace_def isHeaderLine_def)
  then have hyp: "\<forall>l\<in>set (splitOn 0x0A headerOnlyListing). list_all isWhiteSpace l \<or> isHeaderLine l"
    by (simp add: lines)
  from header_only_listing [OF hyp] lines each show ?thesis
    by blast
qed

section \<open>The rows of the listing\<close>

text \<open>
  Claim C8, as amended. The parser strips a leading default marker from every non-empty
  non-header line, trims it and splits it on white space. A line with fewer than three
  parts is skipped. Of every other line the first part is recorded as a distribution name,
  in the order of the lines, and the last part is the version marker of the row:
  \<^verbatim>\<open>defaultDistro\<close> is the name of the last row that starts with the marker, and
  \<^verbatim>\<open>version\<close> is set only from a row that starts with the marker and whose version marker
  is \<^verbatim>\<open>'1'\<close> or \<^verbatim>\<open>'2'\<close>, the last such row.
\<close>

theorem parse_rows:
  "parsed_distros (parseWslListOutput output) =
     map (\<lambda>line. hd (rowParts line)) (filter isRow (dataLines output)) \<and>
   parsed_defaultDistro (parseWslListOutput output) =
     map_option (\<lambda>line. hd (rowParts line)) (latest isDefaultRow (dataLines output)) \<and>
   parsed_version (parseWslListOutput output) =
     map_option (\<lambda>line. if last (rowParts line) = js ''1'' then 1 else 2)
       (latest isVersionRow (dataLines output)) \<and>
   (\<forall>st line. \<not> isRow line \<longrightarrow> parseLine st line = st)"
proof -
  have "(\<lambda>line. parseVersionDigit (last (rowParts line))) =
      (\<lambda>line. if last (rowParts line) = js ''1'' then 1 else 2)"
    by (simp add: parseVersionDigit_def)
  then show ?thesis
    by (simp add: parseWslListOutput_rows parseLine_eq)
qed

lemma two_rows_lines:
  "dataLines threeLineListing = [js ''A x 1'', js ''*B y z 2'', js ''*C 2'']"
  by (simp add: threeLineListing_def dataLines_def outputLines_def splitOn_def trim_def isHeaderLine_def js_def
      isWhiteSpace_def)

lemma two_rows_parts:
  "rowParts (js ''A x 1'') = [js ''A'', js ''x'', js ''1'']"
  "rowParts (js ''*B y z 2'') = [js ''B'', js ''y'', js ''z'', js ''2'']"
  "rowParts (js ''*C 2'') = [js ''C'', js ''2'']"
  by (simp_all add: rowParts_def splitWs_def trim_def stripDefaultMarker_def js_def
      isWhiteSpace_def)

text \<open>
  Three lines: a row, a default row with four parts and version marker 2, and a default
  line with two parts, which is skipped.
\<close>

theorem parse_rows_witness:
  "parseWslListOutput threeLineListing =
     \<lparr>parsed_version = Some 2, parsed_defaultDistro = Some (js ''B''),
      parsed_distros = [js ''A'', js ''B'']\<rparr>"
proof -
  have rows: "isRow (js ''A x 1'')" "isRow (js ''*B y z 2'')" "\<not> isRow (js ''*C 2'')"
    by (simp_all add: isRow_def two_rows_parts)
  have marks: "\<not> startsWith (js ''A x 1'') (js ''*'')" "startsWith (js ''*B y z 2'') (js ''*'')"
    "js ''2'' \<noteq> js ''1''"
    by (simp_all add: startsWith_def js_def)
  from parse_rows [of threeLineListing]
  have "parsed_distros (parseWslListOutput threeLineListing) = [js ''A'', js ''B'']"
    and "parsed_defaultDistro (parseWslListOutput threeLineListing) = Some (js ''B'')"
    and "parsed_version (parseWslListOutput threeLineListing) = Some 2"
    by (simp_all add: two_rows_lines rows marks two_rows_parts latest_def isDefaultRow_def
        isVersionRow_def)
  then show ?thesis
    by (cases "parseWslListOutput threeLineListing") simp
qed

lemma short_row_parts:
  "splitWs (trim (stripDefaultMarker (js ''* Ubuntu 2''))) = [js ''Ubuntu'', js ''2'']"
  by (simp add: splitWs_def trim_def stripDefaultMarker_def js_def isWhiteSpace_def)

lemma short_row_lines: "dataLines (js ''* Ubuntu 2'') = [js ''* Ubuntu 2'']"
  by (simp add: dataLines_def outputLines_def splitOn_def trim_def isHeaderLine_def js_def
      isWhiteSpace_def)

text \<open>
  Claim C8 as it is stated fails for a line with two parts: the line below is a data line
  that starts with the marker, its first part is \<^verbatim>\<open>Ubuntu\<close> and its last part is \<^verbatim>\<open>2\<close>,
  and the parser records no name, no default distribution and no version.
\<close>

theorem short_row_counterexample:
  "dataLines (js ''* Ubuntu 2'') = [js ''* Ubuntu 2''] \<and>
   startsWith (js ''* Ubuntu 2'') (js ''*'') \<and>
   splitWs (trim (stripDefaultMarker (js ''* Ubuntu 2''))) = [js ''Ubuntu'', js ''2''] \<and>
   parseWslListOutput (js ''* Ubuntu 2'') =
     \<lparr>parsed_version = None, parsed_defaultDistro = None, parsed_distros = []\<rparr>"
  by (simp add: short_row_lines short_row_parts parseWslListOutput_def parseLine_def)
     (simp add: startsWith_def js_def)

section \<open>Header words in a line\<close>






section \<open>The cache of the coordinator\<close>

text \<open>
  Claim C2, as amended. A call of \<^verbatim>\<open>initializeRuntime\<close> that fails leaves the cached
  status and the initialized flag as they were, so \<^verbatim>\<open>getRuntimeStatus\<close> still returns the
  previous status; a call that succeeds caches the status it returns.
  \<^verbatim>\<open>reinitializeRuntime\<close> clears the cache and the flag before it runs the initialization
  again: after a failing call \<^verbatim>\<open>getRuntimeStatus\<close> returns null.
\<close>

theorem cache_after_failed_call:
  "(case initializeRuntime options env st of
      (Inl e, st') \<Rightarrow>
        getRuntimeStatus st' = getRuntimeStatus st \<and>
        isRuntimeInitialized st' = isRuntimeInitialized st
    | (Inr status, st') \<Rightarrow>
        getRuntimeStatus st' = Some status \<and> isRuntimeInitialized st') \<and>
   (case reinitializeRuntime options env st of
      (Inl e, st') \<Rightarrow> getRuntimeStatus st' = None \<and> \<not> isRuntimeInitialized st'
    | (Inr status, st') \<Rightarrow>
        getRuntimeStatus st' = Some status \<and> isRuntimeInitialized st')"
  by (simp add: reinitializeRuntime_def initializeRuntime_eq getRuntimeStatus_def
      isRuntimeInitialized_def split: sum.splits)

text \<open>
  The Node detector throws while a status is cached: \<^verbatim>\<open>initializeRuntime\<close> fails and
  keeps the cache, \<^verbatim>\<open>reinitializeRuntime\<close> fails and leaves it empty.
\<close>

theorem cache_after_failed_call_witness:
  "fst (initializeRuntime noOptions
          (exampleEnv\<lparr>detectNodeRuntime_outcome := Inl (JsError (js ''boom''))\<rparr>)
          initializedState) = Inl (JsError (js ''boom'')) \<and>
   getRuntimeStatus (snd (initializeRuntime noOptions
          (exampleEnv\<lparr>detectNodeRuntime_outcome := Inl (JsError (js ''boom''))\<rparr>)
          initializedState)) = Some exampleStatus \<and>
   getRuntimeStatus (snd (reinitializeRuntime noOptions
          (exampleEnv\<lparr>detectNodeRuntime_outcome := Inl (JsError (js ''boom''))\<rparr>)
          initializedState)) = None"
  using cache_after_failed_call [where options = noOptions and st = initializedState
      and env = "exampleEnv\<lparr>detectNodeRuntime_outcome := Inl (JsError (js ''boom''))\<rparr>"]
  by (simp add: coordinator_defs example_defs)

text \<open>
  Claim C2 as it is stated fails for \<^verbatim>\<open>reinitializeRuntime\<close>: the call below fails with the
  exception of the Node detector, and the status that was cached before it is gone.
\<close>

theorem reinitialize_clears_cache_counterexample:
  "fst (reinitializeRuntime noOptions
          (exampleEnv\<lparr>detectNodeRuntime_outcome := Inl (JsError (js ''boom''))\<rparr>)
          initializedState) = Inl (JsError (js ''boom'')) \<and>
   getRuntimeStatus initializedState = Some exampleStatus \<and>
   getRuntimeStatus (snd (reinitializeRuntime noOptions
          (exampleEnv\<lparr>detectNodeRuntime_outcome := Inl (JsError (js ''boom''))\<rparr>)
          initializedState)) \<noteq> getRuntimeStatus initializedState"
  by (simp add: coordinator_defs example_defs)

section \<open>The shell field\<close>

text \<open>
  Claim C3, as amended. In every status that \<^verbatim>\<open>initializeRuntime\<close> returns, the shell field
  is present if and only if the platform is \<^verbatim>\<open>win32\<close>, \<^verbatim>\<open>skipShellDetection\<close> is not set and
  neither the Git Bash detector nor the WSL detector throws. On every other platform it is
  absent.
\<close>

theorem shell_presence:
  assumes "initializeRuntime options env st = (Inr status, st')"
  shows "shell status \<noteq> None \<longleftrightarrow>
           process_platform env = js ''win32'' \<and> \<not> truthy (skipShellDetection options) \<and>
           \<not> isl (detectGitBash_outcome env) \<and> \<not> isl (detectWsl_outcome env)"
proof -
  from assms have "shell status = shellResult options env"
    by (auto simp: initializeRuntime_eq split: sum.splits)
  then show ?thesis
    by (simp add: shellResult_def split: sum.splits)
qed

text \<open>On Windows, with no option set and every detector returning, the field is present.\<close>

theorem shell_presence_witness:
  "initializeRuntime noOptions exampleEnv initializedState =
     (Inr (exampleStatus\<lparr>shell := Some \<lparr>gitBash = exampleTool, wsl = exampleWsl,
                                         recommended = Some GitBashShell\<rparr>,
                         envLoaded := True, initializedAt := 1700000000000\<rparr>),
      \<lparr>runtimeStatusCache =
         Some (exampleStatus\<lparr>shell := Some \<lparr>gitBash = exampleTool, wsl = exampleWsl,
                                              recommended = Some GitBashShell\<rparr>,
                              envLoaded := True, initializedAt := 1700000000000\<rparr>),
       isInitialized = True,
       calls = [CallLoadShellEnv, CallDetectNodeRuntime, CallDetectBunRuntime,
                CallDetectGitRuntime, CallDetectGitBash, CallDetectWsl]\<rparr>) \<and>
   process_platform exampleEnv = js ''win32'' \<and>
   \<not> truthy (skipShellDetection noOptions) \<and>
   \<not> isl (detectGitBash_outcome exampleEnv) \<and> \<not> isl (detectWsl_outcome exampleEnv)"
proof -
  have run: "initializeRuntime noOptions exampleEnv initializedState =
     (Inr (exampleStatus\<lparr>shell := Some \<lparr>gitBash = exampleTool, wsl = exampleWsl,
                                         recommended = Some GitBashShell\<rparr>,
                         envLoaded := True, initializedAt := 1700000000000\<rparr>),
      \<lparr>runtimeStatusCache =
         Some (exampleStatus\<lparr>shell := Some \<lparr>gitBash = exampleTool, wsl = exampleWsl,
                                              recommended = Some GitBashShell\<rparr>,
                              envLoaded := True, initializedAt := 1700000000000\<rparr>),
       isInitialized = True,
       calls = [CallLoadShellEnv, CallDetectNodeRuntime, CallDetectBunRuntime,
                CallDetectGitRuntime, CallDetectGitBash, CallDetectWsl]\<rparr>)"
    by (simp add: coordinator_defs example_defs)
  from shell_presence [OF run] show ?thesis
    using run by simp
qed

text \<open>
  Claim C3 as it is stated fails on Windows when \<^verbatim>\<open>skipShellDetection\<close> is set: the
  platform is \<^verbatim>\<open>win32\<close> and the status that is returned has no shell field.
\<close>

theorem shell_absent_on_windows_counterexample:
  "process_platform exampleEnv = js ''win32'' \<and>
   fst (initializeRuntime (noOptions\<lparr>skipShellDetection := Some True\<rparr>) exampleEnv
          initializedState) =
     Inr (exampleStatus\<lparr>envLoaded := True, initializedAt := 1700000000000\<rparr>) \<and>
   shell (exampleStatus\<lparr>envLoaded := True, initializedAt := 1700000000000\<rparr>) = None"
  by (simp add: coordinator_defs example_defs)

section \<open>The recommended shell\<close>

text \<open>
  Claim C5. For every Git Bash status \<open>g\<close> and every WSL status \<open>w\<close> that the two detectors
  return on Windows, the shell field holds both of them and the recommendation is
  \<^verbatim>\<open>'git-bash'\<close> when \<open>g\<close> is available, whatever \<open>w\<close> is; \<^verbatim>\<open>'wsl'\<close> when \<open>g\<close> is not
  available and \<open>w\<close> is, whatever its version; and null when neither is available.
\<close>

theorem shell_recommendation:
  assumes "process_platform env = js ''win32''"
    and "\<not> truthy (skipShellDetection options)"
    and "detectGitBash_outcome env = Inr g"
    and "detectWsl_outcome env = Inr w"
    and "initializeRuntime options env st = (Inr status, st')"
  shows "shell status =
           Some \<lparr>gitBash = g, wsl = w,
                 recommended =
                   (if available g then Some GitBashShell
                    else if wsl_available w then Some WslShell
                    else None)\<rparr>"
proof -
  from assms(5) have "shell status = shellResult options env"
    by (auto simp: initializeRuntime_eq split: sum.splits)
  with assms(1-4) show ?thesis
    by (simp add: shellResult_def)
qed

text \<open>Git Bash is not available and WSL is: the recommendation is \<^verbatim>\<open>'wsl'\<close>.\<close>

theorem shell_recommendation_witness:
  "fst (initializeRuntime noOptions
          (exampleEnv\<lparr>detectGitBash_outcome := Inr (exampleTool\<lparr>available := False\<rparr>)\<rparr>)
          initializedState) =
     Inr (exampleStatus\<lparr>shell := Some \<lparr>gitBash = exampleTool\<lparr>available := False\<rparr>,
                                        wsl = exampleWsl, recommended = Some WslShell\<rparr>,
                        envLoaded := True, initializedAt := 1700000000000\<rparr>) \<and>
   shell (exampleStatus\<lparr>shell := Some \<lparr>gitBash = exampleTool\<lparr>available := False\<rparr>,
                                        wsl = exampleWsl, recommended = Some WslShell\<rparr>,
                        envLoaded := True, initializedAt := 1700000000000\<rparr>) =
     Some \<lparr>gitBash = exampleTool\<lparr>available := False\<rparr>, wsl = exampleWsl,
           recommended = Some WslShell\<rparr>"
proof -
  let ?env = "exampleEnv\<lparr>detectGitBash_outcome := Inr (exampleTool\<lparr>available := False\<rparr>)\<rparr>"
  have run: "initializeRuntime noOptions ?env initializedState =
     (Inr (exampleStatus\<lparr>shell := Some \<lparr>gitBash = exampleTool\<lparr>available := False\<rparr>,
                                         wsl = exampleWsl, recommended = Some WslShell\<rparr>,
                         envLoaded := True, initializedAt := 1700000000000\<rparr>),
      \<lparr>runtimeStatusCache =
         Some (exampleStatus\<lparr>shell := Some \<lparr>gitBash = exampleTool\<lparr>available := False\<rparr>,
                                              wsl = exampleWsl, recommended = Some WslShell\<rparr>,
                              envLoaded := True, initializedAt := 1700000000000\<rparr>),
       isInitialized = True,
       calls = [CallLoadShellEnv, CallDetectNodeRuntime, CallDetectBunRuntime,
                CallDetectGitRuntime, CallDetectGitBash, CallDetectWsl]\<rparr>)"
    by (simp add: coordinator_defs example_defs exampleWsl_def)
  have "process_platform ?env = js ''win32''"
    and "\<not> truthy (skipShellDetection noOptions)"
    and "detectGitBash_outcome ?env = Inr (exampleTool\<lparr>available := False\<rparr>)"
    and "detectWsl_outcome ?env = Inr exampleWsl"
    by (simp_all add: exampleEnv_def noOptions_def truthy_def)
  from shell_recommendation [OF this run] show ?thesis
    using run by (simp add: exampleWsl_def exampleTool_def)
qed

section \<open>Skipping the Git detector\<close>

text \<open>
  Claim C6. With \<^verbatim>\<open>skipGitDetection\<close> set, \<^verbatim>\<open>initializeRuntime\<close> never calls the Git
  detector; every status it returns has the Git field, which is unavailable, has no path
  and no version, and carries the message of the skip; and the call does return a status
  whenever the Node and the Bun detector are skipped or return.
\<close>

theorem skip_git_detection:
  assumes "truthy (skipGitDetection options)"
  shows "count_list (calls (snd (initializeRuntime options env st))) CallDetectGitRuntime =
           count_list (calls st) CallDetectGitRuntime \<and>
         (\<forall>status st'. initializeRuntime options env st = (Inr status, st') \<longrightarrow>
            git status =
              \<lparr>available = False, path = None, version = None, error = Some msgSkipGit\<rparr>) \<and>
         ((truthy (skipNodeDetection options) \<or> \<not> isl (detectNodeRuntime_outcome env)) \<and>
          (truthy (skipBunDetection options) \<or> \<not> isl (detectBunRuntime_outcome env)) \<longrightarrow>
            \<not> isl (fst (initializeRuntime options env st)))"
proof -
  have no_git: "gitCalls options = []" and git: "gitResult options env =
      Inr \<lparr>available = False, path = None, version = None, error = Some msgSkipGit\<rparr>"
    using assms by (simp_all add: gitCalls_def gitResult_def)
  have others: "count_list (envCalls options) CallDetectGitRuntime = 0"
    "count_list (nodeCalls options) CallDetectGitRuntime = 0"
    "count_list (bunCalls options) CallDetectGitRuntime = 0"
    "count_list (shellCalls options env) CallDetectGitRuntime = 0"
    by (simp_all add: envCalls_def nodeCalls_def bunCalls_def shellCalls_def split: sum.splits)
  have "count_list (calls (snd (initializeRuntime options env st))) CallDetectGitRuntime =
           count_list (calls st) CallDetectGitRuntime"
    by (simp add: initializeRuntime_eq no_git git others split: sum.splits)
  moreover have "git status =
      \<lparr>available = False, path = None, version = None, error = Some msgSkipGit\<rparr>"
    if "initializeRuntime options env st = (Inr status, st')" for status st'
    using that by (auto simp: initializeRuntime_eq git split: sum.splits)
  moreover have "\<not> isl (fst (initializeRuntime options env st))"
    if "truthy (skipNodeDetection options) \<or> \<not> isl (detectNodeRuntime_outcome env)"
      and "truthy (skipBunDetection options) \<or> \<not> isl (detectBunRuntime_outcome env)"
  proof -
    from that have "\<not> isl (nodeResult options env)" "\<not> isl (bunResult options env)"
      by (auto simp: nodeResult_def bunResult_def)
    then show ?thesis
      by (auto simp: initializeRuntime_eq git split: sum.splits)
  qed
  ultimately show ?thesis by blast
qed

text \<open>
  With only \<^verbatim>\<open>skipGitDetection\<close> set, on the example environment: the status is returned
  with the substituted Git field, and the Git detector is not among the calls.
\<close>

theorem skip_git_detection_witness:
  "truthy (skipGitDetection (noOptions\<lparr>skipGitDetection := Some True\<rparr>)) \<and>
   map_sum id git (fst (initializeRuntime (noOptions\<lparr>skipGitDetection := Some True\<rparr>)
                          exampleEnv initializedState)) =
     Inr \<lparr>available = False, path = None, version = None, error = Some msgSkipGit\<rparr> \<and>
   calls (snd (initializeRuntime (noOptions\<lparr>skipGitDetection := Some True\<rparr>) exampleEnv
                 initializedState)) =
     [CallLoadShellEnv, CallDetectNodeRuntime, CallDetectBunRuntime, CallDetectGitBash,
      CallDetectWsl]"
proof -
  have skip: "truthy (skipGitDetection (noOptions\<lparr>skipGitDetection := Some True\<rparr>))"
    by (simp add: truthy_def)
  from skip_git_detection [OF skip, of exampleEnv initializedState] show ?thesis
    by (simp add: coordinator_defs example_defs)
qed

section \<open>Exceptions of the shell detectors\<close>

text \<open>
  Claim C10. On Windows, without \<^verbatim>\<open>skipShellDetection\<close>, when the Git Bash detector or the
  WSL detector throws and the Node, Bun and Git steps give their statuses,
  \<^verbatim>\<open>initializeRuntime\<close> returns a status and caches it: the shell field is absent, and the
  Node, Bun, Git, \<^verbatim>\<open>envLoaded\<close> and \<^verbatim>\<open>initializedAt\<close> fields are what the other steps give.
\<close>

theorem shell_detector_exception:
  assumes "process_platform env = js ''win32''"
    and "\<not> truthy (skipShellDetection options)"
    and "isl (detectGitBash_outcome env) \<or> isl (detectWsl_outcome env)"
    and "truthy (skipNodeDetection options) \<or> detectNodeRuntime_outcome env = Inr n"
    and "truthy (skipBunDetection options) \<or> detectBunRuntime_outcome env = Inr b"
    and "truthy (skipGitDetection options) \<or> detectGitRuntime_outcome env = Inr g"
  shows "\<exists>status st'.
           initializeRuntime options env st = (Inr status, st') \<and>
           getRuntimeStatus st' = Some status \<and> isRuntimeInitialized st' \<and>
           shell status = None \<and>
           node status =
             (if truthy (skipNodeDetection options)
              then \<lparr>available = False, path = None, version = None, error = Some msgSkipNode\<rparr>
              else n) \<and>
           bun status =
             (if truthy (skipBunDetection options)
              then \<lparr>available = False, path = None, version = None, error = Some msgSkipBun,
                    source = None\<rparr>
              else b) \<and>
           git status =
             (if truthy (skipGitDetection options)
              then \<lparr>available = False, path = None, version = None, error = Some msgSkipGit\<rparr>
              else g) \<and>
           envLoaded status =
             (\<not> truthy (skipEnvLoad options) \<and>
              (case loadShellEnv_outcome env of Inr r \<Rightarrow> success r | Inl e \<Rightarrow> False)) \<and>
           initializedAt status = date_now env"
proof -
  have nodeR: "nodeResult options env =
      Inr (if truthy (skipNodeDetection options)
           then \<lparr>available = False, path = None, version = None, error = Some msgSkipNode\<rparr>
           else n)"
    using assms(4) by (auto simp: nodeResult_def)
  have bunR: "bunResult options env =
      Inr (if truthy (skipBunDetection options)
           then \<lparr>available = False, path = None, version = None, error = Some msgSkipBun,
                 source = None\<rparr>
           else b)"
    using assms(5) by (auto simp: bunResult_def)
  have gitR: "gitResult options env =
      Inr (if truthy (skipGitDetection options)
           then \<lparr>available = False, path = None, version = None, error = Some msgSkipGit\<rparr>
           else g)"
    using assms(6) by (auto simp: gitResult_def)
  have shellR: "shellResult options env = None"
    using assms(1-3) by (auto simp: shellResult_def isl_def split: sum.splits)
  show ?thesis
    by (simp add: initializeRuntime_eq nodeR bunR gitR shellR getRuntimeStatus_def
        isRuntimeInitialized_def envLoadedResult_def)
qed

text \<open>The Git Bash detector throws on the example environment.\<close>

theorem shell_detector_exception_witness:
  "initializeRuntime noOptions
     (exampleEnv\<lparr>detectGitBash_outcome := Inl (JsError (js ''spawn failed''))\<rparr>)
     initializedState =
     (Inr (exampleStatus\<lparr>envLoaded := True, initializedAt := 1700000000000\<rparr>),
      \<lparr>runtimeStatusCache =
         Some (exampleStatus\<lparr>envLoaded := True, initializedAt := 1700000000000\<rparr>),
       isInitialized = True,
       calls = [CallLoadShellEnv, CallDetectNodeRuntime, CallDetectBunRuntime,
                CallDetectGitRuntime, CallDetectGitBash]\<rparr>) \<and>
   shell (exampleStatus\<lparr>envLoaded := True, initializedAt := 1700000000000\<rparr>) = None"
proof -
  let ?env = "exampleEnv\<lparr>detectGitBash_outcome := Inl (JsError (js ''spawn failed''))\<rparr>"
  have "process_platform ?env = js ''win32''"
    and "\<not> truthy (skipShellDetection noOptions)"
    and "isl (detectGitBash_outcome ?env) \<or> isl (detectWsl_outcome ?env)"
    and "truthy (skipNodeDetection noOptions) \<or> detectNodeRuntime_outcome ?env = Inr exampleTool"
    and "truthy (skipBunDetection noOptions) \<or> detectBunRuntime_outcome ?env = Inr exampleBun"
    and "truthy (skipGitDetection noOptions) \<or> detectGitRuntime_outcome ?env = Inr exampleTool"
    by (simp_all add: exampleEnv_def noOptions_def truthy_def)
  from shell_detector_exception [OF this, of initializedState] show ?thesis
    by (simp add: coordinator_defs example_defs)
qed

section \<open>Unavailable statuses\<close>

text \<open>
  Claim C4. Every status that is not available has an error and has no path, no version
  and, for Bun, no source. This holds for every status of the WSL detector, on every
  platform and whatever the command does (it has no default distribution and no
  distributions either); for the status that stands in for a skipped Node, Bun or Git
  detector; for every status of the Node, Git, Git Bash and Bun detectors as the spec
  describes them; and so for every status record in the status that \<^verbatim>\<open>initializeRuntime\<close>
  returns on any machine, under any options.
\<close>

theorem unavailable_status_fields:
  "(\<not> wsl_available (detectWsl platform execSync) \<longrightarrow>
      wsl_error (detectWsl platform execSync) \<noteq> None \<and>
      wsl_version (detectWsl platform execSync) = None \<and>
      wsl_defaultDistro (detectWsl platform execSync) = None \<and>
      wsl_distros (detectWsl platform execSync) = []) \<and>
   (truthy (skipNodeDetection options) \<longrightarrow>
      (\<exists>s. fst (detectNodeStep options env st) = Inr s \<and> \<not> available s \<and>
           error s \<noteq> None \<and> path s = None \<and> version s = None)) \<and>
   (truthy (skipBunDetection options) \<longrightarrow>
      (\<exists>s. fst (detectBunStep options env st) = Inr s \<and> \<not> available s \<and>
           error s \<noteq> None \<and> path s = None \<and> version s = None \<and> source s = None)) \<and>
   (truthy (skipGitDetection options) \<longrightarrow>
      (\<exists>s. fst (detectGitStep options env st) = Inr s \<and> \<not> available s \<and>
           error s \<noteq> None \<and> path s = None \<and> version s = None)) \<and>
   (\<not> available (detectTool_spec m executable) \<longrightarrow>
      error (detectTool_spec m executable) \<noteq> None \<and>
      path (detectTool_spec m executable) = None \<and>
      version (detectTool_spec m executable) = None) \<and>
   (\<not> available (detectBunRuntime_spec m) \<longrightarrow>
      error (detectBunRuntime_spec m) \<noteq> None \<and>
      path (detectBunRuntime_spec m) = None \<and>
      version (detectBunRuntime_spec m) = None \<and>
      source (detectBunRuntime_spec m) = None) \<and>
   (\<exists>status st'.
      initializeRuntime options (machineEnvironment m) st = (Inr status, st') \<and>
      (\<not> available (node status) \<longrightarrow>
         error (node status) \<noteq> None \<and> path (node status) = None \<and>
         version (node status) = None) \<and>
      (\<not> available (bun status) \<longrightarrow>
         error (bun status) \<noteq> None \<and> path (bun status) = None \<and>
         version (bun status) = None \<and> source (bun status) = None) \<and>
      (\<not> available (git status) \<longrightarrow>
         error (git status) \<noteq> None \<and> path (git status) = None \<and>
         version (git status) = None) \<and>
      (\<forall>sh. shell status = Some sh \<longrightarrow>
         (\<not> available (gitBash sh) \<longrightarrow>
            error (gitBash sh) \<noteq> None \<and> path (gitBash sh) = None \<and>
            version (gitBash sh) = None) \<and>
         (\<not> wsl_available (wsl sh) \<longrightarrow>
            wsl_error (wsl sh) \<noteq> None \<and> wsl_version (wsl sh) = None \<and>
            wsl_defaultDistro (wsl sh) = None \<and> wsl_distros (wsl sh) = [])))"
proof -
  have skips:
    "truthy (skipNodeDetection options) \<longrightarrow>
      (\<exists>s. fst (detectNodeStep options env st) = Inr s \<and> \<not> available s \<and>
           error s \<noteq> None \<and> path s = None \<and> version s = None)"
    "truthy (skipBunDetection options) \<longrightarrow>
      (\<exists>s. fst (detectBunStep options env st) = Inr s \<and> \<not> available s \<and>
           error s \<noteq> None \<and> path s = None \<and> version s = None \<and> source s = None)"
    "truthy (skipGitDetection options) \<longrightarrow>
      (\<exists>s. fst (detectGitStep options env st) = Inr s \<and> \<not> available s \<and>
           error s \<noteq> None \<and> path s = None \<and> version s = None)"
    by (simp_all add: detectNodeStep_def detectBunStep_def detectGitStep_def)
  let ?n = "if truthy (skipNodeDetection options)
          then \<lparr>available = False, path = None, version = None, error = Some msgSkipNode\<rparr>
          else detectNodeRuntime_spec m"
  let ?b = "if truthy (skipBunDetection options)
          then \<lparr>available = False, path = None, version = None, error = Some msgSkipBun,
                source = None\<rparr>
          else detectBunRuntime_spec m"
  let ?g = "if truthy (skipGitDetection options)
          then \<lparr>available = False, path = None, version = None, error = Some msgSkipGit\<rparr>
          else detectGitRuntime_spec m"
  have n: "\<not> available ?n \<longrightarrow> error ?n \<noteq> None \<and> path ?n = None \<and> version ?n = None"
    using detectTool_spec_unavailable [of m "nodeExecutable m"]
    by (simp add: detectNodeRuntime_spec_def)
  have g: "\<not> available ?g \<longrightarrow> error ?g \<noteq> None \<and> path ?g = None \<and> version ?g = None"
    using detectTool_spec_unavailable [of m "gitExecutable m"]
    by (simp add: detectGitRuntime_spec_def)
  have b: "\<not> available ?b \<longrightarrow>
      error ?b \<noteq> None \<and> path ?b = None \<and> version ?b = None \<and> source ?b = None"
    using detectBunRuntime_spec_unavailable [of m] by simp
  have sh: "(\<not> available (gitBash sh) \<longrightarrow>
            error (gitBash sh) \<noteq> None \<and> path (gitBash sh) = None \<and>
            version (gitBash sh) = None) \<and>
         (\<not> wsl_available (wsl sh) \<longrightarrow>
            wsl_error (wsl sh) \<noteq> None \<and> wsl_version (wsl sh) = None \<and>
            wsl_defaultDistro (wsl sh) = None \<and> wsl_distros (wsl sh) = [])"
    if "shellResult options (machineEnvironment m) = Some sh" for sh
    using machine_shell [OF that] detectTool_spec_unavailable [of m "bashExecutable m"]
      detectWsl_unavailable [of "machine_platform m" "wslListing m"]
    by (simp add: detectGitBash_spec_def)
  have run: "\<exists>status st'.
      initializeRuntime options (machineEnvironment m) st = (Inr status, st') \<and>
      node status = ?n \<and> bun status = ?b \<and> git status = ?g \<and>
      shell status = shellResult options (machineEnvironment m)"
    by (simp add: initializeRuntime_eq machine_results)
  then obtain status st' where
    r: "initializeRuntime options (machineEnvironment m) st = (Inr status, st')"
    and f: "node status = ?n" "bun status = ?b" "git status = ?g"
      "shell status = shellResult options (machineEnvironment m)"
    by blast
  have coordinator: "\<exists>status st'.
      initializeRuntime options (machineEnvironment m) st = (Inr status, st') \<and>
      (\<not> available (node status) \<longrightarrow>
         error (node status) \<noteq> None \<and> path (node status) = None \<and>
         version (node status) = None) \<and>
      (\<not> available (bun status) \<longrightarrow>
         error (bun status) \<noteq> None \<and> path (bun status) = None \<and>
         version (bun status) = None \<and> source (bun status) = None) \<and>
      (\<not> available (git status) \<longrightarrow>
         error (git status) \<noteq> None \<and> path (git status) = None \<and>
         version (git status) = None) \<and>
      (\<forall>sh. shell status = Some sh \<longrightarrow>
         (\<not> available (gitBash sh) \<longrightarrow>
            error (gitBash sh) \<noteq> None \<and> path (gitBash sh) = None \<and>
            version (gitBash sh) = None) \<and>
         (\<not> wsl_available (wsl sh) \<longrightarrow>
            wsl_error (wsl sh) \<noteq> None \<and> wsl_version (wsl sh) = None \<and>
            wsl_defaultDistro (wsl sh) = None \<and> wsl_distros (wsl sh) = []))"
  proof (intro exI conjI)
    show "initializeRuntime options (machineEnvironment m) st = (Inr status, st')" by (rule r)
    show "\<not> available (node status) \<longrightarrow>
         error (node status) \<noteq> None \<and> path (node status) = None \<and>
         version (node status) = None"
      unfolding f by (rule n)
    show "\<not> available (bun status) \<longrightarrow>
         error (bun status) \<noteq> None \<and> path (bun status) = None \<and>
         version (bun status) = None \<and> source (bun status) = None"
      unfolding f by (rule b)
    show "\<not> available (git status) \<longrightarrow>
         error (git status) \<noteq> None \<and> path (git status) = None \<and>
         version (git status) = None"
      unfolding f by (rule g)
    show "\<forall>sh. shell status = Some sh \<longrightarrow>
         (\<not> available (gitBash sh) \<longrightarrow>
            error (gitBash sh) \<noteq> None \<and> path (gitBash sh) = None \<and>
            version (gitBash sh) = None) \<and>
         (\<not> wsl_available (wsl sh) \<longrightarrow>
            wsl_error (wsl sh) \<noteq> None \<and> wsl_version (wsl sh) = None \<and>
            wsl_defaultDistro (wsl sh) = None \<and> wsl_distros (wsl sh) = [])"
      unfolding f using sh by blast
  qed
  from detectWsl_unavailable [of platform execSync] skips
    detectTool_spec_unavailable [of m executable] detectBunRuntime_spec_unavailable [of m]
    coordinator
  show ?thesis by blast
qed


lemma exampleMachine_statuses:
  "detectNodeRuntime_spec exampleMachine =
     \<lparr>available = True, path = Some (js ''node''), version = Some (js ''v20''), error = None\<rparr>"
  "detectGitRuntime_spec exampleMachine =
     \<lparr>available = False, path = None, version = None, error = Some (js ''not found'')\<rparr>"
  "detectGitBash_spec exampleMachine =
     \<lparr>available = False, path = None, version = None, error = Some (js ''timeout'')\<rparr>"
  "detectBunRuntime_spec exampleMachine =
     \<lparr>available = False, path = None, version = None,
      error = Some (js ''system, bundled, vendor''), source = None\<rparr>"
  "detectWsl (machine_platform exampleMachine) (wslListing exampleMachine) =
     \<lparr>wsl_available = False, wsl_version = None, wsl_defaultDistro = None, wsl_distros = [],
      wsl_error = Some (msgDetectFailed (js ''timeout''))\<rparr>"
proof -
  have ne: "js ''bash'' \<noteq> js ''node''" "js ''bun'' \<noteq> js ''node''"
    "\<not> includesStr (js ''timeout'') (js ''wsl.exe'')"
    by (simp_all add: js_def)
  show "detectNodeRuntime_spec exampleMachine =
     \<lparr>available = True, path = Some (js ''node''), version = Some (js ''v20''), error = None\<rparr>"
    by (simp add: detectNodeRuntime_spec_def detectTool_spec_def exampleMachine_def)
  show "detectGitRuntime_spec exampleMachine =
     \<lparr>available = False, path = None, version = None, error = Some (js ''not found'')\<rparr>"
    by (simp add: detectGitRuntime_spec_def detectTool_spec_def exampleMachine_def)
  show "detectGitBash_spec exampleMachine =
     \<lparr>available = False, path = None, version = None, error = Some (js ''timeout'')\<rparr>"
    by (simp add: detectGitBash_spec_def detectTool_spec_def exampleMachine_def ne)
  show "detectBunRuntime_spec exampleMachine =
     \<lparr>available = False, path = None, version = None,
      error = Some (js ''system, bundled, vendor''), source = None\<rparr>"
    by (simp add: detectBunRuntime_spec_def tryBunStrategy_def exampleMachine_def ne)
  show "detectWsl (machine_platform exampleMachine) (wslListing exampleMachine) =
     \<lparr>wsl_available = False, wsl_version = None, wsl_defaultDistro = None, wsl_distros = [],
      wsl_error = Some (msgDetectFailed (js ''timeout''))\<rparr>"
    by (simp add: detectWsl_def exampleMachine_def ne)
qed

text \<open>
  Away from Windows the WSL detector gives an unavailable status. On the example machine
  Git is not found, the version queries of Bash and of the only Bun candidate fail, and
  the WSL command fails: with the Bun detector skipped the coordinator returns four
  unavailable statuses of detectors and the substituted one.
\<close>

theorem unavailable_status_fields_witness:
  "\<not> wsl_available (detectWsl (js ''linux'') (ExecReturns [])) \<and>
   wsl_error (detectWsl (js ''linux'') (ExecReturns [])) = Some msgNonWindows \<and>
   wsl_version (detectWsl (js ''linux'') (ExecReturns [])) = None \<and>
   truthy (skipBunDetection (noOptions\<lparr>skipBunDetection := Some True\<rparr>)) \<and>
   fst (detectBunStep (noOptions\<lparr>skipBunDetection := Some True\<rparr>) exampleEnv
          initializedState) =
     Inr \<lparr>available = False, path = None, version = None, error = Some msgSkipBun,
          source = None\<rparr> \<and>
   fst (initializeRuntime (noOptions\<lparr>skipBunDetection := Some True\<rparr>)
          (machineEnvironment exampleMachine) initializedState) =
     Inr \<lparr>node =
            \<lparr>available = True, path = Some (js ''node''), version = Some (js ''v20''),
             error = None\<rparr>,
          bun =
            \<lparr>available = False, path = None, version = None, error = Some msgSkipBun,
             source = None\<rparr>,
          git =
            \<lparr>available = False, path = None, version = None,
             error = Some (js ''not found'')\<rparr>,
          shell =
            Some \<lparr>gitBash =
                    \<lparr>available = False, path = None, version = None,
                     error = Some (js ''timeout'')\<rparr>,
                  wsl =
                    \<lparr>wsl_available = False, wsl_version = None, wsl_defaultDistro = None,
                     wsl_distros = [],
                     wsl_error = Some (msgDetectFailed (js ''timeout''))\<rparr>,
                  recommended = None\<rparr>,
          envLoaded = True, initializedAt = 1700000000000\<rparr> \<and>
   detectBunRuntime_spec exampleMachine =
     \<lparr>available = False, path = None, version = None,
      error = Some (js ''system, bundled, vendor''), source = None\<rparr>"
proof -
  have env: "machineEnvironment exampleMachine =
     \<lparr>process_platform = js ''win32'', date_now = 1700000000000,
      loadShellEnv_outcome = Inr \<lparr>success = True, loadedCount = 3, env_error = None\<rparr>,
      detectNodeRuntime_outcome = Inr (detectNodeRuntime_spec exampleMachine),
      detectBunRuntime_outcome = Inr (detectBunRuntime_spec exampleMachine),
      detectGitRuntime_outcome = Inr (detectGitRuntime_spec exampleMachine),
      detectGitBash_outcome = Inr (detectGitBash_spec exampleMachine),
      detectWsl_outcome =
        Inr (detectWsl (machine_platform exampleMachine) (wslListing exampleMachine))\<rparr>"
    by (simp add: machineEnvironment_def) (simp add: exampleMachine_def)
  have linux: "detectWsl (js ''linux'') (ExecReturns []) =
     \<lparr>wsl_available = False, wsl_version = None, wsl_defaultDistro = None, wsl_distros = [],
      wsl_error = Some msgNonWindows\<rparr>"
    by (simp add: detectWsl_def win32_neq_linux)
  have computed: ?thesis
    by (simp add: linux coordinator_defs noOptions_def initializedState_def env
        exampleMachine_statuses)
  from unavailable_status_fields [where platform = "js ''linux''"
      and execSync = "ExecReturns []"
      and options = "noOptions\<lparr>skipBunDetection := Some True\<rparr>"
      and env = exampleEnv and st = initializedState and m = exampleMachine
      and executable = None]
  show ?thesis
    by - (rule computed)
qed

end
